theory Spec2Isabelle
  imports Complex_Main "HOL-Library.Word" "HOL-Library.Char_ord"
begin

section \<open>The security controller of SecuritySystem.cpp\<close>

text \<open>
  The controller is a single object whose member functions mutate its fields and block on
  the keypad. The model passes the object explicitly as a record. Output-only hardware (the
  LCD, the RGB LED, the buzzer) and the sleeps are left out: no branch of the controller
  reads them back. What the controller reads from the outside is an input of the model:
  the results of \<^verbatim>\<open>scanKeypad()\<close> as a list of characters (the character 0 is "no key",
  as in the source), the sensor pins and the millisecond clock as a \<open>snapshot\<close> per call of
  \<^verbatim>\<open>checkSensors()\<close>.
\<close>

subsection \<open>Data\<close>

datatype SystemState = DISARMED | ARMED_HOME | ARMED_AWAY | ALARM

type_synonym u32 = "32 word"

text \<open>
  The fields of \<^verbatim>\<open>class SecuritySystem\<close> that the decision logic reads, followed by the
  three function-local \<^verbatim>\<open>static\<close> variables (\<open>inAlertZone\<close> of \<^verbatim>\<open>checkSensors\<close>,
  \<open>lastMeasureTime\<close> of \<^verbatim>\<open>measureDistance\<close>, \<open>lastUpdate\<close> of \<^verbatim>\<open>processEntryDelay\<close>) and by
  \<open>events\<close>, the sequence of messages handed to \<^verbatim>\<open>logEvent\<close> so far. \<open>inputCode\<close> is the
  \<^verbatim>\<open>char[5]\<close> buffer as a list of five characters.
\<close>

record sys =
  currentState :: SystemState
  inputCode :: "char list"
  codeIndex :: int
  lastCommand :: char
  entryDelayActive :: bool
  entryDelayStart :: u32
  lastDoorState :: bool
  lastUltrasonicAlert :: u32
  inAlertZone :: bool
  lastMeasureTime :: u32
  lastUpdate :: u32
  events :: "string list"

text \<open>
  What one call of \<^verbatim>\<open>checkSensors()\<close> reads: the PIR pins (\<^verbatim>\<open>pirSensor1\<close> is read a second
  time in the home-mode test), the door pin, the distance computed from the echo pulse
  (\<open>None\<close> when one of the two waits for the echo times out), and the value of
  \<^verbatim>\<open>Kernel::get_ms_count()\<close> at each of the four places that may read it.
\<close>

record snapshot =
  pir1 :: bool
  pir2 :: bool
  pir1_again :: bool
  door :: bool
  echo_cm :: "real option"
  t_door :: u32
  t_measure :: u32
  t_alert :: u32
  t_delay :: u32

text \<open>
  The only loop that waits for input is the \<^verbatim>\<open>while(currentState == ALARM)\<close> of
  \<^verbatim>\<open>handleAlarm\<close>. A finite list of scan results stands for that list followed by an idle
  keypad, so a function either returns (with the scan results it has not consumed), or it
  stays in the alarm loop for ever: \<open>Alarming s\<close>, with the state \<open>s\<close> the loop idles in.
\<close>

datatype outcome = Returned sys "char list" | Alarming sys

fun state_of :: "outcome \<Rightarrow> sys" where
  "state_of (Returned s ks) = s"
| "state_of (Alarming s) = s"

fun andThen :: "outcome \<Rightarrow> (sys \<Rightarrow> char list \<Rightarrow> outcome) \<Rightarrow> outcome" where
  "andThen (Returned s ks) f = f s ks"
| "andThen (Alarming s) f = Alarming s"

subsection \<open>Small members\<close>

definition SECURITY_CODE :: string where
  "SECURITY_CODE = ''2580''"

definition NUL :: char where
  "NUL = CHR 0x00"

text \<open>
  A character array read as a C string: the characters before the first 0. The fifth
  character of \<open>inputCode\<close> is never written after the \<^verbatim>\<open>memset\<close>, so the string that
  \<^verbatim>\<open>strcmp\<close> reads ends inside the array.
\<close>

definition cstr :: "char list \<Rightarrow> string" where
  "cstr xs = takeWhile (\<lambda>c. c \<noteq> NUL) xs"

definition isDigit :: "char \<Rightarrow> bool" where
  "isDigit key \<longleftrightarrow> CHR ''0'' \<le> key \<and> key \<le> CHR ''9''"

text \<open>The buffer after \<^verbatim>\<open>memset(inputCode, 0, sizeof(inputCode))\<close>.\<close>

definition zeroCode :: "char list" where
  "zeroCode = [NUL, NUL, NUL, NUL, NUL]"

text \<open>\<^verbatim>\<open>codeIndex = 0; memset(inputCode, 0, sizeof(inputCode));\<close>\<close>

definition clearCode :: "sys \<Rightarrow> sys" where
  "clearCode s = s\<lparr>codeIndex := 0, inputCode := zeroCode\<rparr>"

text \<open>
  \<^verbatim>\<open>inputCode[codeIndex++] = key\<close>, reached only under \<^verbatim>\<open>codeIndex < 4\<close>. The index is a C
  \<^verbatim>\<open>int\<close>; that it is never negative is an invariant of the controller (\<open>bufOk\<close> below).
\<close>

definition pushDigit :: "sys \<Rightarrow> char \<Rightarrow> sys" where
  "pushDigit s key = s\<lparr>inputCode := (inputCode s)[nat (codeIndex s) := key],
                       codeIndex := codeIndex s + 1\<rparr>"

text \<open>\<^verbatim>\<open>codeIndex--; inputCode[codeIndex] = 0;\<close>, reached only under \<^verbatim>\<open>codeIndex > 0\<close>.\<close>

definition popDigit :: "sys \<Rightarrow> sys" where
  "popDigit s = s\<lparr>codeIndex := codeIndex s - 1,
                   inputCode := (inputCode s)[nat (codeIndex s - 1) := NUL]\<rparr>"

definition validateCode :: "sys \<Rightarrow> bool" where
  "validateCode s \<longleftrightarrow> cstr (inputCode s) = SECURITY_CODE"

definition logEvent :: "sys \<Rightarrow> string \<Rightarrow> sys" where
  "logEvent s event = s\<lparr>events := events s @ [event]\<rparr>"

definition resetEntryDelay :: "sys \<Rightarrow> sys" where
  "resetEntryDelay s = s\<lparr>entryDelayActive := False, entryDelayStart := 0\<rparr>"

text \<open>The member initialisers and the \<^verbatim>\<open>memset\<close> of the constructor.\<close>

definition initial :: sys where
  "initial = \<lparr>currentState = DISARMED, inputCode = zeroCode, codeIndex = 0,
     lastCommand = NUL, entryDelayActive = False, entryDelayStart = 0,
     lastDoorState = False, lastUltrasonicAlert = 0, inAlertZone = False,
     lastMeasureTime = 0, lastUpdate = 0, events = []\<rparr>"

subsection \<open>The alarm response loop\<close>

text \<open>
  One iteration of the loop of \<^verbatim>\<open>handleAlarm\<close> makes exactly one call of \<^verbatim>\<open>scanKeypad()\<close>, so
  the loop is a recursion on the scan results; the flag is the local \<^verbatim>\<open>codeEntryMode\<close>.
\<close>

fun alarmLoop :: "bool \<Rightarrow> sys \<Rightarrow> char list \<Rightarrow> outcome" where
  "alarmLoop codeEntryMode s [] =
     (if currentState s \<noteq> ALARM then Returned s [] else Alarming s)"
| "alarmLoop codeEntryMode s (key # ks) =
     (if currentState s \<noteq> ALARM then Returned s (key # ks)
      else if \<not> codeEntryMode then
        (if key = CHR ''C''
         then alarmLoop True ((clearCode s)\<lparr>lastCommand := CHR ''C''\<rparr>) ks
         else alarmLoop False s ks)
      else if key \<noteq> NUL then
        (if isDigit key \<and> codeIndex s < 4 then alarmLoop True (pushDigit s key) ks
         else if key = CHR ''#'' \<and> codeIndex s = 4 then
           (if validateCode s
            then Returned (logEvent ((resetEntryDelay s)\<lparr>currentState := DISARMED\<rparr>)
                             ''Alarm Disarmed'') ks
            else alarmLoop False (clearCode (logEvent s ''Wrong Code Entry During Alarm'')) ks)
         else if key = CHR ''*'' then
           (if codeIndex s > 0 then alarmLoop True (popDigit s) ks
            else alarmLoop True s ks)
         else alarmLoop True s ks)
      else alarmLoop True s ks)"

definition handleAlarm :: "sys \<Rightarrow> char list \<Rightarrow> outcome" where
  "handleAlarm s ks = alarmLoop False (logEvent s ''ALARM TRIGGERED'') ks"

subsection \<open>Keypad commands\<close>

text \<open>
  \<^verbatim>\<open>handleKeypress(key)\<close>. The first block is the entry-delay path, which ends in
  \<^verbatim>\<open>return;  // Skip normal processing during entry delay\<close>; the second is the \<^verbatim>\<open>switch\<close>.
\<close>

definition handleKeypress :: "sys \<Rightarrow> char \<Rightarrow> char list \<Rightarrow> outcome" where
  "handleKeypress s key ks =
     (if currentState s = ARMED_AWAY \<and> entryDelayActive s then
        (if isDigit key \<and> codeIndex s < 4 then Returned (pushDigit s key) ks
         else if key = CHR ''#'' \<and> codeIndex s = 4 then
           (if validateCode s
            then Returned (s\<lparr>entryDelayActive := False, currentState := DISARMED\<rparr>) ks
            else Returned (clearCode s) ks)
         else if key = CHR ''*'' \<and> codeIndex s > 0 then Returned (popDigit s) ks
         else Returned s ks)
      else if key = CHR ''A'' then
        (if currentState s \<noteq> ALARM
         then Returned ((clearCode s)\<lparr>lastCommand := CHR ''A''\<rparr>) ks
         else Returned s ks)
      else if key = CHR ''B'' then
        (if currentState s \<noteq> ALARM
         then Returned ((clearCode s)\<lparr>lastCommand := CHR ''B''\<rparr>) ks
         else Returned s ks)
      else if key = CHR ''C'' then
        (if currentState s \<noteq> DISARMED
         then Returned ((clearCode s)\<lparr>lastCommand := CHR ''C''\<rparr>) ks
         else Returned s ks)
      else if key = CHR ''D'' then
        handleAlarm (logEvent (s\<lparr>currentState := ALARM\<rparr>) ''Panic Button Pressed'') ks
      else if key = CHR ''*'' then
        (if codeIndex s > 0 then Returned (popDigit s) ks else Returned s ks)
      else if key = CHR ''#'' then
        (if codeIndex s = 4 then
           (if validateCode s then
              (if lastCommand s = CHR ''A'' then
                 Returned (clearCode (logEvent ((resetEntryDelay s)\<lparr>currentState := ARMED_HOME\<rparr>)
                                        ''System Armed - Home Mode'')) ks
               else if lastCommand s = CHR ''B'' then
                 Returned (clearCode (logEvent ((resetEntryDelay s)\<lparr>currentState := ARMED_AWAY\<rparr>)
                                        ''System Armed - Away Mode'')) ks
               else if lastCommand s = CHR ''C'' then
                 Returned (clearCode (logEvent ((resetEntryDelay s)\<lparr>currentState := DISARMED\<rparr>)
                                        ''System Disarmed'')) ks
               else Returned (clearCode s) ks)
            else Returned (clearCode s) ks)
         else Returned s ks)
      else if isDigit key \<and> codeIndex s < 4 then Returned (pushDigit s key) ks
      else Returned s ks)"

subsection \<open>Sensor handlers\<close>

definition handleMotionDetected :: "sys \<Rightarrow> string \<Rightarrow> char list \<Rightarrow> outcome" where
  "handleMotionDetected s motionMsg ks =
     (if currentState s \<noteq> ALARM
      then handleAlarm (logEvent ((resetEntryDelay s)\<lparr>currentState := ALARM\<rparr>) motionMsg) ks
      else Returned s ks)"

text \<open>\<^verbatim>\<open>handleDoorOpen(msg)\<close>; \<open>now\<close> is the clock value stored in \<^verbatim>\<open>entryDelayStart\<close>.\<close>

definition handleDoorOpen :: "sys \<Rightarrow> string \<Rightarrow> u32 \<Rightarrow> sys" where
  "handleDoorOpen s msg now =
     (let s1 = logEvent s msg in
      if currentState s1 = DISARMED then s1
      else if currentState s1 = ARMED_HOME then s1
      else if currentState s1 = ARMED_AWAY
      then clearCode (s1\<lparr>entryDelayActive := True, entryDelayStart := now\<rparr>)
      else s1)"

text \<open>\<^verbatim>\<open>handleUltrasonicAlert(alertMsg)\<close>; \<open>currentTime\<close> is its clock reading.\<close>

definition handleUltrasonicAlert :: "sys \<Rightarrow> string \<Rightarrow> u32 \<Rightarrow> char list \<Rightarrow> outcome" where
  "handleUltrasonicAlert s alertMsg currentTime ks =
     (if currentTime - lastUltrasonicAlert s < 1000 then Returned s ks
      else
        (let s1 = s\<lparr>lastUltrasonicAlert := currentTime\<rparr> in
         if currentState s1 = ARMED_HOME then Returned (logEvent s1 alertMsg) ks
         else if currentState s1 = ARMED_AWAY
         then handleAlarm ((logEvent s1 alertMsg)\<lparr>currentState := ALARM\<rparr>) ks
         else Returned s1 ks))"

text \<open>
  \<^verbatim>\<open>measureDistance()\<close>: the rate limiter, the two echo waits (their outcome is the input
  \<open>echo\<close>) and the range check. The source computes in \<^verbatim>\<open>float\<close>; the model keeps the value
  as a real number, which the comparisons with 2, 10, 12 and 400 read the same way.
\<close>

definition measureDistance :: "sys \<Rightarrow> u32 \<Rightarrow> real option \<Rightarrow> real \<times> sys" where
  "measureDistance s currentTime echo =
     (if currentTime - lastMeasureTime s < 60 then (400, s)
      else
        (let s1 = s\<lparr>lastMeasureTime := currentTime\<rparr> in
         case echo of
           None \<Rightarrow> (400, s1)
         | Some distance_cm \<Rightarrow>
             if distance_cm < 2 \<or> distance_cm > 400 then (400, s1) else (distance_cm, s1)))"

text \<open>
  \<^verbatim>\<open>processEntryDelay()\<close>. \<open>elapsed\<close> and \<open>remaining\<close> are \<^verbatim>\<open>uint32_t\<close> in the source, so
  \<open>30 - elapsed\<close> is a subtraction of 32-bit words.
\<close>

definition processEntryDelay :: "sys \<Rightarrow> u32 \<Rightarrow> char list \<Rightarrow> outcome" where
  "processEntryDelay s currentTime ks =
     (if \<not> entryDelayActive s then Returned s ks
      else
        (let elapsed = (currentTime - entryDelayStart s) div 1000;
             remaining = 30 - elapsed
         in if currentTime - lastUpdate s \<ge> 1000 \<or> lastUpdate s = 0 then
              (let s1 = s\<lparr>lastUpdate := currentTime\<rparr> in
               if remaining > 0 then Returned s1 ks
               else handleAlarm (s1\<lparr>entryDelayActive := False, currentState := ALARM\<rparr>) ks)
            else Returned s ks))"

subsection \<open>Sensor monitoring\<close>

text \<open>The three commented blocks of \<^verbatim>\<open>checkSensors()\<close>, then the function itself.\<close>

definition checkMotion :: "sys \<Rightarrow> snapshot \<Rightarrow> char list \<Rightarrow> outcome" where
  "checkMotion s sn ks =
     (if pir1 sn \<or> pir2 sn then
        (if currentState s = ARMED_AWAY then handleMotionDetected s ''Motion Detected!'' ks
         else if currentState s = ARMED_HOME \<and> pir1_again sn
         then handleMotionDetected s ''Outside Motion!'' ks
         else Returned s ks)
      else Returned s ks)"

definition checkDoor :: "sys \<Rightarrow> snapshot \<Rightarrow> sys" where
  "checkDoor s sn =
     (let currentDoorState = door sn;
          s1 = (if currentDoorState \<and> \<not> lastDoorState s then
                  (case currentState s of
                     ARMED_HOME \<Rightarrow> handleDoorOpen s ''Door Opened'' (t_door sn)
                   | ARMED_AWAY \<Rightarrow> handleDoorOpen s ''Entry Started'' (t_door sn)
                   | _ \<Rightarrow> s)
                else s)
      in s1\<lparr>lastDoorState := currentDoorState\<rparr>)"

definition checkProximity :: "sys \<Rightarrow> snapshot \<Rightarrow> char list \<Rightarrow> outcome" where
  "checkProximity s sn ks =
     (if currentState s \<noteq> DISARMED \<and> \<not> entryDelayActive s then
        (case measureDistance s (t_measure sn) (echo_cm sn) of
           (distance, s1) \<Rightarrow>
             if distance < 10 \<and> \<not> inAlertZone s1 then
               (let s2 = s1\<lparr>inAlertZone := True\<rparr> in
                if currentState s2 = ARMED_HOME
                then handleUltrasonicAlert s2 ''Proximity Alert'' (t_alert sn) ks
                else if currentState s2 = ARMED_AWAY
                then handleUltrasonicAlert s2 ''Window Breach!'' (t_alert sn) ks
                else Returned s2 ks)
             else if distance > 12 then Returned (s1\<lparr>inAlertZone := False\<rparr>) ks
             else Returned s1 ks)
      else Returned s ks)"

definition checkSensors :: "sys \<Rightarrow> snapshot \<Rightarrow> char list \<Rightarrow> outcome" where
  "checkSensors s sn ks =
     andThen (checkMotion s sn ks) (\<lambda>s1 ks1.
     andThen (checkProximity (checkDoor s1 sn) sn ks1) (\<lambda>s2 ks2.
       if currentState s2 = ARMED_AWAY \<and> entryDelayActive s2
       then processEntryDelay s2 (t_delay sn) ks2
       else Returned s2 ks2))"

subsection \<open>The main loop\<close>

text \<open>
  One iteration of the \<^verbatim>\<open>while(1)\<close> of \<^verbatim>\<open>run()\<close>: a keypad scan (an exhausted list is an idle
  keypad), the key handler, and the sensors when armed. \<open>run\<close> iterates it over the sensor
  snapshots of successive iterations.
\<close>

definition runTick :: "sys \<Rightarrow> char list \<Rightarrow> snapshot \<Rightarrow> outcome" where
  "runTick s ks sn =
     (let key = (case ks of [] \<Rightarrow> NUL | k # _ \<Rightarrow> k); ks' = tl ks in
      andThen (if key \<noteq> NUL then handleKeypress s key ks' else Returned s ks') (\<lambda>s1 ks1.
        if currentState s1 \<noteq> DISARMED \<and> currentState s1 \<noteq> ALARM
        then checkSensors s1 sn ks1
        else Returned s1 ks1))"

fun run :: "sys \<Rightarrow> char list \<Rightarrow> snapshot list \<Rightarrow> outcome" where
  "run s ks [] = Returned s ks"
| "run s ks (sn # sns) =
     (case runTick s ks sn of
        Alarming s' \<Rightarrow> Alarming s'
      | Returned s1 ks1 \<Rightarrow> run s1 ks1 sns)"

text \<open>The invariant of the code-entry buffer: its length is between 0 and 4.\<close>

definition bufOk :: "sys \<Rightarrow> bool" where
  "bufOk s \<longleftrightarrow> 0 \<le> codeIndex s \<and> codeIndex s \<le> 4"

text \<open>A snapshot in which no sensor reports anything and the clock reads 0.\<close>

definition quiet :: snapshot where
  "quiet = \<lparr>pir1 = False, pir2 = False, pir1_again = False, door = False,
     echo_cm = None, t_door = 0, t_measure = 0, t_alert = 0, t_delay = 0\<rparr>"

text \<open>The number of "Proximity Alert" lines in the log: the home-mode warnings given so far.\<close>

definition proximityAlerts :: "sys \<Rightarrow> nat" where
  "proximityAlerts s = length (filter (\<lambda>e. e = ''Proximity Alert'') (events s))"

section \<open>Properties\<close>

lemmas member_defs = logEvent_def clearCode_def pushDigit_def popDigit_def validateCode_def
  cstr_def SECURITY_CODE_def NUL_def isDigit_def resetEntryDelay_def zeroCode_def

lemmas sensor_defs = checkSensors_def checkMotion_def checkDoor_def checkProximity_def
  measureDistance_def handleUltrasonicAlert_def handleMotionDetected_def handleDoorOpen_def
  processEntryDelay_def

subsection \<open>The alarm loop and the code buffer\<close>

text \<open>
  What the alarm loop can do, started in \<open>ALARM\<close>: it only appends to the log, and it
  either returns disarmed or keeps sounding in \<open>ALARM\<close>.
\<close>

lemma alarmLoop_outcome:
  "currentState s = ALARM \<Longrightarrow>
   \<exists>s' rest. events s' = events s @ rest \<and>
     ((\<exists>ks'. alarmLoop m s ks = Returned s' ks' \<and> currentState s' = DISARMED)
      \<or> (alarmLoop m s ks = Alarming s' \<and> currentState s' = ALARM))"
proof (induction ks arbitrary: m s)
  case Nil
  then show ?case by simp
next
  case (Cons key ks)
  define good where "good out \<longleftrightarrow> (\<exists>s' rest. events s' = events s @ rest \<and>
     ((\<exists>ks'. out = Returned s' ks' \<and> currentState s' = DISARMED)
      \<or> (out = Alarming s' \<and> currentState s' = ALARM)))" for out
  have step: "good (alarmLoop m' t ks)"
    if "currentState t = ALARM" and "\<exists>r. events t = events s @ r" for m' t
  proof -
    from that obtain r where r: "events t = events s @ r" by blast
    from Cons.IH [OF that(1), of m'] obtain s' rest where
      "events s' = events t @ rest"
      "(\<exists>ks'. alarmLoop m' t ks = Returned s' ks' \<and> currentState s' = DISARMED)
        \<or> (alarmLoop m' t ks = Alarming s' \<and> currentState s' = ALARM)"
      by blast
    with r show ?thesis unfolding good_def
      by (intro exI [of _ s'] exI [of _ "r @ rest"]) simp
  qed
  have fin: "good (Returned t ks)"
    if "currentState t = DISARMED" and "\<exists>r. events t = events s @ r" for t
    using that unfolding good_def by auto
  have "good (alarmLoop m s (key # ks))"
    using \<open>currentState s = ALARM\<close>
    by (simp add: step fin clearCode_def pushDigit_def popDigit_def logEvent_def
        resetEntryDelay_def)
  then show ?case unfolding good_def .
qed

lemma handleAlarm_outcome:
  assumes "currentState s = ALARM"
  shows "\<exists>s' rest. events s' = events s @ ''ALARM TRIGGERED'' # rest \<and>
     ((\<exists>ks'. handleAlarm s ks = Returned s' ks' \<and> currentState s' = DISARMED)
      \<or> (handleAlarm s ks = Alarming s' \<and> currentState s' = ALARM))"
  using alarmLoop_outcome [of "logEvent s ''ALARM TRIGGERED''" False ks] assms
  by (simp add: handleAlarm_def logEvent_def)

text \<open>
  The loop returns only through the \<^verbatim>\<open>break\<close> after a valid code, and that branch leaves
  the buffer alone: whenever the loop returns, the four digits of the code are still stored.
\<close>

lemma alarm_exit_keeps_valid_code:
  "currentState s = ALARM \<Longrightarrow> alarmLoop m s ks = Returned s' ks' \<Longrightarrow>
   codeIndex s' = 4 \<and> validateCode s'"
proof (induction ks arbitrary: m s)
  case Nil
  then show ?case by simp
next
  case (Cons key ks)
  define stale where "stale out \<longleftrightarrow> (out = Returned s' ks' \<longrightarrow> codeIndex s' = 4 \<and> validateCode s')"
    for out
  have step: "stale (alarmLoop m' t ks)" if "currentState t = ALARM" for m' t
    using Cons.IH [OF that] unfolding stale_def by blast
  have fin: "stale (Returned t ks)" if "codeIndex t = 4" and "validateCode t" for t
    using that unfolding stale_def by auto
  have "stale (alarmLoop m s (key # ks))"
    using \<open>currentState s = ALARM\<close>
    by (simp add: step fin clearCode_def pushDigit_def popDigit_def logEvent_def
        resetEntryDelay_def validateCode_def)
  with Cons.prems(2) show ?case unfolding stale_def by blast
qed

text \<open>
  C1. The claim: on every exit of the alarm loop the code buffer is empty. The loop has one
  exit, the \<^verbatim>\<open>break\<close> after a valid code, and that branch does not clear the buffer (the
  wrong-code branch beside it does). Started in \<open>ALARM\<close> with an empty buffer and given the
  keys C 2 5 8 0 #, the loop returns with state \<open>DISARMED\<close>, \<open>codeIndex = 4\<close> and the four
  digits still stored.
\<close>

theorem C1_alarm_exit_keeps_code:
  "\<exists>s'. handleAlarm (initial\<lparr>currentState := ALARM\<rparr>) ''C2580#'' = Returned s' []
     \<and> currentState s' = DISARMED \<and> codeIndex s' = 4 \<and> inputCode s' = ''2580'' @ [NUL]"
  by (simp add: initial_def handleAlarm_def member_defs)

subsection \<open>The entry delay\<close>

text \<open>
  C3. The claim: at every processing of the countdown 30 seconds or more after the door
  opened, the state becomes \<open>ALARM\<close>. The source computes \<open>remaining = 30 - elapsed\<close> in
  \<^verbatim>\<open>uint32_t\<close>, so from 31 seconds on \<open>remaining\<close> wraps to a large positive number and the
  test \<^verbatim>\<open>remaining > 0\<close> takes the countdown branch. Door opened at 5000 ms, last display
  update at 34500 ms, countdown processed at 36000 ms (31 s elapsed): the call returns,
  the state is still \<open>ARMED_AWAY\<close> and the delay still active. Processed at 35500 ms
  (30 s elapsed) instead, the same state goes to \<open>ALARM\<close>.
\<close>

theorem C3_expiry_missed_after_31s:
  "processEntryDelay
     (initial\<lparr>currentState := ARMED_AWAY, entryDelayActive := True, entryDelayStart := 5000,
        lastDoorState := True, lastUpdate := 34500\<rparr>) 36000 []
   = Returned
     (initial\<lparr>currentState := ARMED_AWAY, entryDelayActive := True, entryDelayStart := 5000,
        lastDoorState := True, lastUpdate := 36000\<rparr>) []
   \<and> processEntryDelay
     (initial\<lparr>currentState := ARMED_AWAY, entryDelayActive := True, entryDelayStart := 5000,
        lastDoorState := True, lastUpdate := 34500\<rparr>) 35500 []
   = Alarming
     (initial\<lparr>currentState := ALARM, entryDelayActive := False, entryDelayStart := 5000,
        lastDoorState := True, lastUpdate := 35500, events := [''ALARM TRIGGERED'']\<rparr>)"
  by (simp add: initial_def processEntryDelay_def handleAlarm_def member_defs word_gt_0)

text \<open>
  C10. During an active entry delay under \<open>ARMED_AWAY\<close>, confirming a wrong 4-character code
  with \<open>#\<close> changes nothing but the buffer, which is emptied: the state, the delay flag and
  the start of the delay are as before.
\<close>

theorem C10_wrong_code_keeps_deadline:
  assumes "currentState s = ARMED_AWAY" and "entryDelayActive s"
    and "codeIndex s = 4" and "\<not> validateCode s"
  shows "\<exists>s'. handleKeypress s CHR ''#'' ks = Returned s' ks
     \<and> s' = s\<lparr>codeIndex := 0, inputCode := zeroCode\<rparr>
     \<and> currentState s' = ARMED_AWAY \<and> entryDelayActive s'
     \<and> entryDelayStart s' = entryDelayStart s
     \<and> codeIndex s' = 0 \<and> inputCode s' = zeroCode"
  using assms by (simp add: handleKeypress_def clearCode_def isDigit_def)

theorem C10_witness:
  "\<exists>s'. handleKeypress
        (initial\<lparr>currentState := ARMED_AWAY, entryDelayActive := True, entryDelayStart := 5000,
           codeIndex := 4, inputCode := ''1234'' @ [NUL]\<rparr>) CHR ''#'' []
      = Returned s' []
     \<and> currentState s' = ARMED_AWAY \<and> entryDelayActive s' \<and> entryDelayStart s' = 5000
     \<and> codeIndex s' = 0 \<and> inputCode s' = zeroCode"
  using C10_wrong_code_keeps_deadline [of "initial\<lparr>currentState := ARMED_AWAY,
     entryDelayActive := True, entryDelayStart := 5000, codeIndex := 4,
     inputCode := ''1234'' @ [NUL]\<rparr>" "[]"]
  by (simp add: initial_def member_defs)

lemma run_disarmed_idle: "currentState s = DISARMED \<Longrightarrow> run s [] sns = Returned s []"
  by (induction sns) (simp_all add: runTick_def)

text \<open>
  C6. During an active entry delay under \<open>ARMED_AWAY\<close>, confirming the valid code with \<open>#\<close>
  disarms and cancels the delay, whatever the clock reads. Afterwards the countdown does
  nothing at any time, and with an idle keypad the main loop leaves the disarmed state as
  it is for any sensor readings: no alarm follows from that episode. Starting from the
  empty buffer that the door trip leaves, the five key presses 2 5 8 0 # do just that.
\<close>

theorem C6_valid_code_cancels_entry_delay:
  "(currentState s = ARMED_AWAY \<and> entryDelayActive s \<and> codeIndex s = 4 \<and> validateCode s \<longrightarrow>
      (\<exists>s'. handleKeypress s CHR ''#'' ks = Returned s' ks
         \<and> currentState s' = DISARMED \<and> \<not> entryDelayActive s'
         \<and> (\<forall>t ks'. processEntryDelay s' t ks' = Returned s' ks')
         \<and> (\<forall>sns. run s' [] sns = Returned s' [])))
   \<and> (currentState s = ARMED_AWAY \<and> entryDelayActive s \<and> codeIndex s = 0
        \<and> inputCode s = zeroCode \<longrightarrow>
      andThen (handleKeypress s CHR ''2'' ks) (\<lambda>s1 ks1.
      andThen (handleKeypress s1 CHR ''5'' ks1) (\<lambda>s2 ks2.
      andThen (handleKeypress s2 CHR ''8'' ks2) (\<lambda>s3 ks3.
      andThen (handleKeypress s3 CHR ''0'' ks3) (\<lambda>s4 ks4.
        handleKeypress s4 CHR ''#'' ks4))))
      = Returned (s\<lparr>currentState := DISARMED, entryDelayActive := False, codeIndex := 4,
                    inputCode := ''2580'' @ [NUL]\<rparr>) ks)"
proof -
  have a: "currentState s = ARMED_AWAY \<and> entryDelayActive s \<and> codeIndex s = 4
        \<and> validateCode s \<longrightarrow>
      (\<exists>s'. handleKeypress s CHR ''#'' ks = Returned s' ks
         \<and> currentState s' = DISARMED \<and> \<not> entryDelayActive s'
         \<and> (\<forall>t ks'. processEntryDelay s' t ks' = Returned s' ks')
         \<and> (\<forall>sns. run s' [] sns = Returned s' []))"
    by (simp add: handleKeypress_def isDigit_def processEntryDelay_def run_disarmed_idle)
  have b: "currentState s = ARMED_AWAY \<and> entryDelayActive s \<and> codeIndex s = 0
        \<and> inputCode s = zeroCode \<longrightarrow>
      andThen (handleKeypress s CHR ''2'' ks) (\<lambda>s1 ks1.
      andThen (handleKeypress s1 CHR ''5'' ks1) (\<lambda>s2 ks2.
      andThen (handleKeypress s2 CHR ''8'' ks2) (\<lambda>s3 ks3.
      andThen (handleKeypress s3 CHR ''0'' ks3) (\<lambda>s4 ks4.
        handleKeypress s4 CHR ''#'' ks4))))
      = Returned (s\<lparr>currentState := DISARMED, entryDelayActive := False, codeIndex := 4,
                    inputCode := ''2580'' @ [NUL]\<rparr>) ks"
    by (simp add: handleKeypress_def member_defs)
  from a b show ?thesis by blast
qed

theorem C6_witness:
  "(\<exists>s'. handleKeypress
        (initial\<lparr>currentState := ARMED_AWAY, entryDelayActive := True, entryDelayStart := 5000,
           lastUpdate := 34000, codeIndex := 4, inputCode := ''2580'' @ [NUL]\<rparr>) CHR ''#'' []
      = Returned s' []
     \<and> currentState s' = DISARMED \<and> \<not> entryDelayActive s'
     \<and> (\<forall>t ks'. processEntryDelay s' t ks' = Returned s' ks')
     \<and> (\<forall>sns. run s' [] sns = Returned s' []))
   \<and> andThen (handleKeypress (initial\<lparr>currentState := ARMED_AWAY, entryDelayActive := True,
          entryDelayStart := 5000, lastUpdate := 34000\<rparr>) CHR ''2'' []) (\<lambda>s1 ks1.
      andThen (handleKeypress s1 CHR ''5'' ks1) (\<lambda>s2 ks2.
      andThen (handleKeypress s2 CHR ''8'' ks2) (\<lambda>s3 ks3.
      andThen (handleKeypress s3 CHR ''0'' ks3) (\<lambda>s4 ks4.
        handleKeypress s4 CHR ''#'' ks4))))
      = Returned (initial\<lparr>currentState := DISARMED, entryDelayActive := False,
          entryDelayStart := 5000, lastUpdate := 34000, codeIndex := 4,
          inputCode := ''2580'' @ [NUL]\<rparr>) []"
  using C6_valid_code_cancels_entry_delay [of "initial\<lparr>currentState := ARMED_AWAY,
     entryDelayActive := True, entryDelayStart := 5000, lastUpdate := 34000, codeIndex := 4,
     inputCode := ''2580'' @ [NUL]\<rparr>" "[]"]
    C6_valid_code_cancels_entry_delay [of "initial\<lparr>currentState := ARMED_AWAY,
     entryDelayActive := True, entryDelayStart := 5000, lastUpdate := 34000\<rparr>" "[]"]
  by (simp add: initial_def member_defs)

subsection \<open>Keypad commands\<close>

text \<open>
  C2. The claim: after a \<open>#\<close> submission of a 4-digit code the pending command is no longer
  stored, so a second code entry without a command key executes nothing. The source never
  writes \<open>lastCommand\<close> except on the keys A, B and C. From the initial state, the keys
  A 2 5 8 0 # arm the system; the keys 2 5 8 0 # that follow execute the command A again.
\<close>

theorem C2_counterexample:
  "\<exists>s'. run initial ''A2580#2580#''
           [quiet, quiet, quiet, quiet, quiet, quiet, quiet, quiet, quiet, quiet, quiet]
         = Returned s' []
     \<and> lastCommand s' = CHR ''A''
     \<and> events s' = [''System Armed - Home Mode'', ''System Armed - Home Mode'']"
  by (simp add: initial_def quiet_def runTick_def handleKeypress_def sensor_defs member_defs
      Let_def)

text \<open>
  C2, as the code has it: a \<open>#\<close> press never changes \<open>lastCommand\<close>, in the normal handler and
  in the entry-delay path, whether the code is valid, invalid or incomplete. Outside an
  active entry delay, a valid 4-character code confirmed with \<open>#\<close> therefore executes the
  command that is still stored: A arms home, B arms away, C disarms, each with its log
  line.
\<close>

theorem C2_submit_keeps_lastCommand:
  "(\<exists>s'. handleKeypress s CHR ''#'' ks = Returned s' ks \<and> lastCommand s' = lastCommand s)
   \<and> (\<not> (currentState s = ARMED_AWAY \<and> entryDelayActive s) \<and> codeIndex s = 4
        \<and> validateCode s \<longrightarrow>
       (lastCommand s = CHR ''A'' \<longrightarrow>
          handleKeypress s CHR ''#'' ks =
            Returned (clearCode (logEvent ((resetEntryDelay s)\<lparr>currentState := ARMED_HOME\<rparr>)
                                   ''System Armed - Home Mode'')) ks)
       \<and> (lastCommand s = CHR ''B'' \<longrightarrow>
          handleKeypress s CHR ''#'' ks =
            Returned (clearCode (logEvent ((resetEntryDelay s)\<lparr>currentState := ARMED_AWAY\<rparr>)
                                   ''System Armed - Away Mode'')) ks)
       \<and> (lastCommand s = CHR ''C'' \<longrightarrow>
          handleKeypress s CHR ''#'' ks =
            Returned (clearCode (logEvent ((resetEntryDelay s)\<lparr>currentState := DISARMED\<rparr>)
                                   ''System Disarmed'')) ks))"
  by (simp add: handleKeypress_def isDigit_def clearCode_def logEvent_def resetEntryDelay_def)

theorem C2_witness:
  "\<exists>s'. handleKeypress (initial\<lparr>currentState := ARMED_HOME, lastCommand := CHR ''A'',
            codeIndex := 4, inputCode := ''2580'' @ [NUL]\<rparr>) CHR ''#'' [] = Returned s' []
     \<and> lastCommand s' = CHR ''A'' \<and> currentState s' = ARMED_HOME
     \<and> events s' = [''System Armed - Home Mode'']"
  using C2_submit_keeps_lastCommand [of "initial\<lparr>currentState := ARMED_HOME,
     lastCommand := CHR ''A'', codeIndex := 4, inputCode := ''2580'' @ [NUL]\<rparr>" "[]"]
  by (simp add: initial_def member_defs)

text \<open>
  C5. The claim: C pressed while \<open>DISARMED\<close> opens a code-entry episode with pending command
  C, and the valid code then logs the disarm. The case C of the source is guarded by
  \<^verbatim>\<open>currentState != DISARMED\<close>: from the initial state the key C changes nothing, and after
  C 2 5 8 0 # the state is the initial one again, with an empty log.
\<close>

theorem C5_counterexample:
  "handleKeypress initial CHR ''C'' [] = Returned initial [] \<and> lastCommand initial \<noteq> CHR ''C''
   \<and> run initial ''C2580#'' [quiet, quiet, quiet, quiet, quiet, quiet] = Returned initial []
   \<and> events initial = []"
  by (simp add: initial_def quiet_def runTick_def handleKeypress_def member_defs Let_def)

text \<open>
  C5, as the code has it: while \<open>DISARMED\<close> the key C is ignored; it opens no episode and
  leaves the pending command and the buffer as they are. A valid 4-character code confirmed
  with \<open>#\<close> then acts on the command stored before: when that is C, the state stays
  \<open>DISARMED\<close> and "System Disarmed" is logged; when none is stored (as after start-up),
  the state stays \<open>DISARMED\<close>, the buffer is cleared and nothing is logged.
\<close>

theorem C5_disarm_key_ignored_when_disarmed:
  assumes "currentState s = DISARMED"
  shows "handleKeypress s CHR ''C'' ks = Returned s ks
     \<and> (codeIndex s = 4 \<and> validateCode s \<and> lastCommand s = CHR ''C'' \<longrightarrow>
          handleKeypress s CHR ''#'' ks =
            Returned (clearCode (logEvent ((resetEntryDelay s)\<lparr>currentState := DISARMED\<rparr>)
                                   ''System Disarmed'')) ks)
     \<and> (codeIndex s = 4 \<and> validateCode s \<and> lastCommand s = NUL \<longrightarrow>
          handleKeypress s CHR ''#'' ks = Returned (clearCode s) ks)"
  using assms by (simp add: handleKeypress_def isDigit_def NUL_def)

theorem C5_witness:
  "handleKeypress (initial\<lparr>lastCommand := CHR ''C''\<rparr>) CHR ''C'' []
     = Returned (initial\<lparr>lastCommand := CHR ''C''\<rparr>) []
   \<and> (\<exists>s'. handleKeypress (initial\<lparr>lastCommand := CHR ''C'', codeIndex := 4,
              inputCode := ''2580'' @ [NUL]\<rparr>) CHR ''#'' [] = Returned s' []
         \<and> currentState s' = DISARMED \<and> events s' = [''System Disarmed''])
   \<and> (\<exists>s'. handleKeypress (initial\<lparr>codeIndex := 4, inputCode := ''2580'' @ [NUL]\<rparr>) CHR ''#'' []
           = Returned s' []
         \<and> currentState s' = DISARMED \<and> events s' = [])"
  using C5_disarm_key_ignored_when_disarmed [of "initial\<lparr>lastCommand := CHR ''C''\<rparr>" "[]"]
    C5_disarm_key_ignored_when_disarmed [of "initial\<lparr>lastCommand := CHR ''C'', codeIndex := 4,
       inputCode := ''2580'' @ [NUL]\<rparr>" "[]"]
    C5_disarm_key_ignored_when_disarmed [of "initial\<lparr>codeIndex := 4,
       inputCode := ''2580'' @ [NUL]\<rparr>" "[]"]
  by (simp add: initial_def member_defs)

text \<open>
  C4. The claim: D raises the alarm from every state but \<open>ALARM\<close>, also during an active
  entry delay. The entry-delay path of \<^verbatim>\<open>handleKeypress\<close> returns before the \<^verbatim>\<open>switch\<close>
  ("Skip normal processing during entry delay"): with the delay active under \<open>ARMED_AWAY\<close>
  and two digits entered, the key D changes nothing.
\<close>

theorem C4_counterexample:
  "handleKeypress
     (initial\<lparr>currentState := ARMED_AWAY, entryDelayActive := True, entryDelayStart := 5000,
        lastDoorState := True, codeIndex := 2, inputCode := ''25'' @ [NUL, NUL, NUL]\<rparr>)
     CHR ''D'' []
   = Returned
     (initial\<lparr>currentState := ARMED_AWAY, entryDelayActive := True, entryDelayStart := 5000,
        lastDoorState := True, codeIndex := 2, inputCode := ''25'' @ [NUL, NUL, NUL]\<rparr>) []"
  by (simp add: initial_def handleKeypress_def member_defs)

text \<open>
  C4, as the code has it. From every state other than \<open>ALARM\<close> with no entry delay active
  under \<open>ARMED_AWAY\<close>, the key D sets the state to \<open>ALARM\<close>, logs "Panic Button Pressed" and
  enters the alarm loop, which logs "ALARM TRIGGERED": with an idle keypad the controller
  stays there, the code buffer as it was; for any further keys the log starts with these
  two lines; and the key C inside the loop opens the code entry with an emptied buffer.
  During an active entry delay under \<open>ARMED_AWAY\<close> the key D is ignored.
\<close>

theorem C4_panic_key:
  "(currentState s \<noteq> ALARM \<and> \<not> (currentState s = ARMED_AWAY \<and> entryDelayActive s) \<longrightarrow>
      handleKeypress s CHR ''D'' [] =
        Alarming (s\<lparr>currentState := ALARM,
                    events := events s @ [''Panic Button Pressed'', ''ALARM TRIGGERED'']\<rparr>)
      \<and> (\<exists>rest. events (state_of (handleKeypress s CHR ''D'' ks)) =
            events s @ [''Panic Button Pressed'', ''ALARM TRIGGERED''] @ rest)
      \<and> handleKeypress s CHR ''D'' (CHR ''C'' # ks) =
          alarmLoop True
            (s\<lparr>currentState := ALARM,
               events := events s @ [''Panic Button Pressed'', ''ALARM TRIGGERED''],
               codeIndex := 0, inputCode := zeroCode, lastCommand := CHR ''C''\<rparr>) ks)
   \<and> (currentState s = ARMED_AWAY \<and> entryDelayActive s \<longrightarrow>
        handleKeypress s CHR ''D'' ks = Returned s ks)"
proof -
  let ?p = "logEvent (s\<lparr>currentState := ALARM\<rparr>) ''Panic Button Pressed''"
  have "\<exists>rest. events (state_of (handleAlarm ?p ks)) =
      events s @ [''Panic Button Pressed'', ''ALARM TRIGGERED''] @ rest"
    using handleAlarm_outcome [of ?p ks] by (auto simp: logEvent_def)
  then show ?thesis
    by (simp add: handleKeypress_def isDigit_def)
       (simp add: handleAlarm_def logEvent_def clearCode_def)
qed

theorem C4_witness:
  "handleKeypress (initial\<lparr>codeIndex := 2, inputCode := ''25'' @ [NUL, NUL, NUL]\<rparr>) CHR ''D'' []
     = Alarming (initial\<lparr>currentState := ALARM, codeIndex := 2,
         inputCode := ''25'' @ [NUL, NUL, NUL],
         events := [''Panic Button Pressed'', ''ALARM TRIGGERED'']\<rparr>)
   \<and> handleKeypress
       (initial\<lparr>currentState := ARMED_AWAY, entryDelayActive := True, lastDoorState := True\<rparr>)
       CHR ''D'' []
     = Returned
       (initial\<lparr>currentState := ARMED_AWAY, entryDelayActive := True, lastDoorState := True\<rparr>) []"
  using C4_panic_key [of "initial\<lparr>codeIndex := 2, inputCode := ''25'' @ [NUL, NUL, NUL]\<rparr>" "[]"]
    C4_panic_key [of "initial\<lparr>currentState := ARMED_AWAY, entryDelayActive := True,
       lastDoorState := True\<rparr>" "[]"]
  by (simp add: initial_def member_defs)

subsection \<open>Sensor monitoring\<close>

text \<open>One pass of \<^verbatim>\<open>checkSensors\<close>, block by block.\<close>

lemma checkMotion_home_quiet:
  "currentState s = ARMED_HOME \<Longrightarrow> \<not> pir1 sn \<Longrightarrow> \<not> pir1_again sn \<Longrightarrow>
   checkMotion s sn ks = Returned s ks"
  by (simp add: checkMotion_def)

lemma checkDoor_home:
  "currentState s = ARMED_HOME \<Longrightarrow>
   checkDoor s sn = (if door sn \<and> \<not> lastDoorState s then logEvent s ''Door Opened'' else s)
                      \<lparr>lastDoorState := door sn\<rparr>"
  by (simp add: checkDoor_def handleDoorOpen_def logEvent_def Let_def)

lemma checkProximity_home:
  assumes "currentState s = ARMED_HOME"
  shows "\<exists>s'. checkProximity s sn ks = Returned s' ks \<and> currentState s' = ARMED_HOME"
  using assms
  by (auto simp: checkProximity_def measureDistance_def handleUltrasonicAlert_def logEvent_def
      Let_def split: option.splits)

lemma home_no_exterior_motion:
  assumes "currentState s = ARMED_HOME" and "\<not> pir1 sn" and "\<not> pir1_again sn"
  shows "\<exists>s'. checkSensors s sn ks = Returned s' ks \<and> currentState s' = ARMED_HOME"
proof -
  have "currentState (checkDoor s sn) = ARMED_HOME"
    using assms(1) by (simp add: checkDoor_home logEvent_def)
  from checkProximity_home [OF this, of sn ks] obtain s' where
    "checkProximity (checkDoor s sn) sn ks = Returned s' ks" "currentState s' = ARMED_HOME"
    by blast
  then show ?thesis
    using assms by (simp add: checkSensors_def checkMotion_home_quiet)
qed

lemma checkDoor_disarmed:
  "currentState s = DISARMED \<Longrightarrow> checkDoor s sn = s\<lparr>lastDoorState := door sn\<rparr>"
  by (simp add: checkDoor_def Let_def)

lemma checkProximity_disarmed:
  "currentState s = DISARMED \<Longrightarrow> checkProximity s sn ks = Returned s ks"
  by (simp add: checkProximity_def)

lemma after_alarm:
  assumes "currentState s = ALARM"
  shows "\<exists>rest. events (state_of (andThen (handleAlarm s ks) (\<lambda>s1 ks1.
     andThen (checkProximity (checkDoor s1 sn) sn ks1) (\<lambda>s2 ks2.
       if currentState s2 = ARMED_AWAY \<and> entryDelayActive s2
       then processEntryDelay s2 (t_delay sn) ks2
       else Returned s2 ks2)))) = events s @ ''ALARM TRIGGERED'' # rest"
proof -
  from handleAlarm_outcome [OF assms, of ks] obtain s' rest where
    ev: "events s' = events s @ ''ALARM TRIGGERED'' # rest" and
    out: "(\<exists>ks'. handleAlarm s ks = Returned s' ks' \<and> currentState s' = DISARMED)
      \<or> (handleAlarm s ks = Alarming s' \<and> currentState s' = ALARM)"
    by blast
  from out show ?thesis
  proof
    assume "\<exists>ks'. handleAlarm s ks = Returned s' ks' \<and> currentState s' = DISARMED"
    then show ?thesis using ev
      by (auto simp: checkDoor_disarmed checkProximity_disarmed)
  next
    assume "handleAlarm s ks = Alarming s' \<and> currentState s' = ALARM"
    then show ?thesis using ev by simp
  qed
qed

text \<open>
  C7. In \<open>ARMED_HOME\<close>, when the exterior sensor \<^verbatim>\<open>pirSensor1\<close> reads false, one pass of
  \<^verbatim>\<open>checkSensors\<close> returns with the state still \<open>ARMED_HOME\<close>, whatever the interior sensor,
  the door and the distance read. When the exterior sensor reads true, the pass logs
  "Outside Motion!", sets \<open>ALARM\<close> and enters the alarm loop at once: with an idle keypad
  the controller stays in \<open>ALARM\<close>, and for any keys the log continues with these two
  lines. In \<open>ARMED_AWAY\<close> either sensor does the same with "Motion Detected!".
\<close>

theorem C7_motion_asymmetry:
  "(currentState s = ARMED_HOME \<and> \<not> pir1 sn \<and> \<not> pir1_again sn \<longrightarrow>
      (\<exists>s'. checkSensors s sn ks = Returned s' ks \<and> currentState s' = ARMED_HOME))
   \<and> (currentState s = ARMED_HOME \<and> pir1 sn \<and> pir1_again sn \<longrightarrow>
        checkSensors s sn [] =
          Alarming (s\<lparr>currentState := ALARM, entryDelayActive := False, entryDelayStart := 0,
                      events := events s @ [''Outside Motion!'', ''ALARM TRIGGERED'']\<rparr>)
        \<and> (\<exists>rest. events (state_of (checkSensors s sn ks)) =
              events s @ [''Outside Motion!'', ''ALARM TRIGGERED''] @ rest))
   \<and> (currentState s = ARMED_AWAY \<and> (pir1 sn \<or> pir2 sn) \<longrightarrow>
        checkSensors s sn [] =
          Alarming (s\<lparr>currentState := ALARM, entryDelayActive := False, entryDelayStart := 0,
                      events := events s @ [''Motion Detected!'', ''ALARM TRIGGERED'']\<rparr>)
        \<and> (\<exists>rest. events (state_of (checkSensors s sn ks)) =
              events s @ [''Motion Detected!'', ''ALARM TRIGGERED''] @ rest))"
proof -
  let ?a = "\<lambda>msg. logEvent ((resetEntryDelay s)\<lparr>currentState := ALARM\<rparr>) msg"
  have idle: "handleAlarm (?a msg) [] =
      Alarming (s\<lparr>currentState := ALARM, entryDelayActive := False, entryDelayStart := 0,
                  events := events s @ [msg, ''ALARM TRIGGERED'']\<rparr>)" for msg
    by (simp add: handleAlarm_def logEvent_def resetEntryDelay_def)
  have log: "\<exists>rest. events (state_of (andThen (handleAlarm (?a msg) ks) (\<lambda>s1 ks1.
     andThen (checkProximity (checkDoor s1 sn) sn ks1) (\<lambda>s2 ks2.
       if currentState s2 = ARMED_AWAY \<and> entryDelayActive s2
       then processEntryDelay s2 (t_delay sn) ks2
       else Returned s2 ks2)))) = events s @ [msg, ''ALARM TRIGGERED''] @ rest" for msg
    using after_alarm [of "?a msg" ks sn] by (simp add: logEvent_def resetEntryDelay_def)
  have away: "checkMotion s sn ks' = handleAlarm (?a ''Motion Detected!'') ks'"
    if "currentState s = ARMED_AWAY" "pir1 sn \<or> pir2 sn" for ks'
    using that by (simp add: checkMotion_def handleMotionDetected_def)
  have home: "checkMotion s sn ks' = handleAlarm (?a ''Outside Motion!'') ks'"
    if "currentState s = ARMED_HOME" "pir1 sn" "pir1_again sn" for ks'
    using that by (simp add: checkMotion_def handleMotionDetected_def)
  have c1: "currentState s = ARMED_HOME \<and> \<not> pir1 sn \<and> \<not> pir1_again sn \<longrightarrow>
      (\<exists>s'. checkSensors s sn ks = Returned s' ks \<and> currentState s' = ARMED_HOME)"
    using home_no_exterior_motion [of s sn ks] by blast
  have c2: "currentState s = ARMED_HOME \<and> pir1 sn \<and> pir1_again sn \<longrightarrow>
        checkSensors s sn [] =
          Alarming (s\<lparr>currentState := ALARM, entryDelayActive := False, entryDelayStart := 0,
                      events := events s @ [''Outside Motion!'', ''ALARM TRIGGERED'']\<rparr>)
        \<and> (\<exists>rest. events (state_of (checkSensors s sn ks)) =
              events s @ [''Outside Motion!'', ''ALARM TRIGGERED''] @ rest)"
    using log [of "''Outside Motion!''"] by (simp add: checkSensors_def home idle)
  have c3: "currentState s = ARMED_AWAY \<and> (pir1 sn \<or> pir2 sn) \<longrightarrow>
        checkSensors s sn [] =
          Alarming (s\<lparr>currentState := ALARM, entryDelayActive := False, entryDelayStart := 0,
                      events := events s @ [''Motion Detected!'', ''ALARM TRIGGERED'']\<rparr>)
        \<and> (\<exists>rest. events (state_of (checkSensors s sn ks)) =
              events s @ [''Motion Detected!'', ''ALARM TRIGGERED''] @ rest)"
    using log [of "''Motion Detected!''"] by (simp add: checkSensors_def away idle)
  from c1 c2 c3 show ?thesis by blast
qed

theorem C7_witness:
  "(\<exists>s'. checkSensors (initial\<lparr>currentState := ARMED_HOME\<rparr>) (quiet\<lparr>pir2 := True\<rparr>) []
          = Returned s' [] \<and> currentState s' = ARMED_HOME)
   \<and> checkSensors (initial\<lparr>currentState := ARMED_HOME\<rparr>)
        (quiet\<lparr>pir1 := True, pir1_again := True\<rparr>) []
      = Alarming (initial\<lparr>currentState := ALARM,
          events := [''Outside Motion!'', ''ALARM TRIGGERED'']\<rparr>)
   \<and> checkSensors (initial\<lparr>currentState := ARMED_AWAY\<rparr>) (quiet\<lparr>pir2 := True\<rparr>) []
      = Alarming (initial\<lparr>currentState := ALARM,
          events := [''Motion Detected!'', ''ALARM TRIGGERED'']\<rparr>)"
  using C7_motion_asymmetry [of "initial\<lparr>currentState := ARMED_HOME\<rparr>" "quiet\<lparr>pir2 := True\<rparr>" "[]"]
    C7_motion_asymmetry [of "initial\<lparr>currentState := ARMED_HOME\<rparr>"
      "quiet\<lparr>pir1 := True, pir1_again := True\<rparr>" "[]"]
    C7_motion_asymmetry [of "initial\<lparr>currentState := ARMED_AWAY\<rparr>" "quiet\<lparr>pir2 := True\<rparr>" "[]"]
  by (simp add: initial_def quiet_def)

subsection \<open>The bound on the code buffer\<close>

lemma bufOk_simps:
  "bufOk (clearCode s)"
  "bufOk (logEvent s e) = bufOk s"
  "bufOk (resetEntryDelay s) = bufOk s"
  "bufOk (s\<lparr>currentState := st\<rparr>) = bufOk s"
  "bufOk (s\<lparr>lastCommand := c\<rparr>) = bufOk s"
  "bufOk (s\<lparr>entryDelayActive := b\<rparr>) = bufOk s"
  "bufOk (s\<lparr>entryDelayStart := t\<rparr>) = bufOk s"
  "bufOk (s\<lparr>lastDoorState := b\<rparr>) = bufOk s"
  "bufOk (s\<lparr>lastUltrasonicAlert := t\<rparr>) = bufOk s"
  "bufOk (s\<lparr>inAlertZone := b\<rparr>) = bufOk s"
  "bufOk (s\<lparr>lastMeasureTime := t\<rparr>) = bufOk s"
  "bufOk (s\<lparr>lastUpdate := t\<rparr>) = bufOk s"
  by (simp_all add: bufOk_def clearCode_def logEvent_def resetEntryDelay_def)

lemma bufOk_push: "bufOk s \<Longrightarrow> codeIndex s < 4 \<Longrightarrow> bufOk (pushDigit s key)"
  by (simp add: bufOk_def pushDigit_def)

lemma bufOk_pop: "bufOk s \<Longrightarrow> 0 < codeIndex s \<Longrightarrow> bufOk (popDigit s)"
  by (simp add: bufOk_def popDigit_def)

lemma bufOk_alarmLoop: "bufOk s \<Longrightarrow> bufOk (state_of (alarmLoop m s ks))"
  by (induction ks arbitrary: m s) (simp_all add: bufOk_simps bufOk_push bufOk_pop)

lemma bufOk_handleAlarm: "bufOk s \<Longrightarrow> bufOk (state_of (handleAlarm s ks))"
  by (simp add: handleAlarm_def bufOk_alarmLoop bufOk_simps)

lemma bufOk_handleKeypress: "bufOk s \<Longrightarrow> bufOk (state_of (handleKeypress s key ks))"
  by (simp add: handleKeypress_def bufOk_simps bufOk_push bufOk_pop bufOk_handleAlarm)

lemma bufOk_andThen:
  "bufOk (state_of out) \<Longrightarrow> (\<And>s ks. bufOk s \<Longrightarrow> bufOk (state_of (f s ks))) \<Longrightarrow>
   bufOk (state_of (andThen out f))"
  by (cases out) simp_all

lemma bufOk_checkMotion: "bufOk s \<Longrightarrow> bufOk (state_of (checkMotion s sn ks))"
  by (simp add: checkMotion_def handleMotionDetected_def bufOk_handleAlarm bufOk_simps)

lemma bufOk_checkDoor: "bufOk s \<Longrightarrow> bufOk (checkDoor s sn)"
  by (simp add: checkDoor_def handleDoorOpen_def Let_def bufOk_simps split: SystemState.splits)

lemma bufOk_handleUltrasonicAlert:
  "bufOk s \<Longrightarrow> bufOk (state_of (handleUltrasonicAlert s msg t ks))"
  by (simp add: handleUltrasonicAlert_def Let_def bufOk_handleAlarm bufOk_simps)

lemma bufOk_measureDistance: "bufOk s \<Longrightarrow> bufOk (snd (measureDistance s t e))"
  by (simp add: measureDistance_def Let_def bufOk_simps split: option.splits)

lemma bufOk_checkProximity:
  assumes "bufOk s"
  shows "bufOk (state_of (checkProximity s sn ks))"
proof (cases "measureDistance s (t_measure sn) (echo_cm sn)")
  case (Pair distance s1)
  with bufOk_measureDistance [OF assms, of "t_measure sn" "echo_cm sn"] have "bufOk s1"
    by simp
  with Pair assms show ?thesis
    by (simp add: checkProximity_def Let_def bufOk_handleUltrasonicAlert bufOk_simps)
qed

lemma bufOk_processEntryDelay: "bufOk s \<Longrightarrow> bufOk (state_of (processEntryDelay s t ks))"
  by (simp add: processEntryDelay_def Let_def bufOk_handleAlarm bufOk_simps)

lemma bufOk_checkSensors: "bufOk s \<Longrightarrow> bufOk (state_of (checkSensors s sn ks))"
  unfolding checkSensors_def
  by (intro bufOk_andThen bufOk_checkMotion bufOk_checkProximity bufOk_checkDoor)
     (simp_all add: bufOk_processEntryDelay)

lemma bufOk_runTick: "bufOk s \<Longrightarrow> bufOk (state_of (runTick s ks sn))"
  unfolding runTick_def Let_def
  by (intro bufOk_andThen) (simp_all add: bufOk_handleKeypress bufOk_checkSensors)

lemma bufOk_run: "bufOk s \<Longrightarrow> bufOk (state_of (run s ks sns))"
proof (induction sns arbitrary: s ks)
  case Nil
  then show ?case by simp
next
  case (Cons sn sns)
  from bufOk_runTick [OF Cons.prems, of ks sn] Cons.IH show ?case
    by (cases "runTick s ks sn") simp_all
qed

text \<open>
  C9. The code-entry buffer never holds fewer than 0 or more than 4 characters: the bound
  holds initially and is kept by the key handler (normal and entry-delay path), by the alarm
  loop for any keys and in either mode, and by the main loop for any keys and sensor
  readings, also in the state in which the alarm loop keeps sounding. A \<open>*\<close> on an empty
  buffer changes nothing, and neither does a digit on a buffer of 4 characters, in the key
  handler and in the code entry of the alarm loop.
\<close>

theorem C9_buffer_bounds:
  "bufOk initial
   \<and> (bufOk s \<longrightarrow> bufOk (state_of (run s ks sns)) \<and> bufOk (state_of (handleKeypress s key ks))
       \<and> bufOk (state_of (alarmLoop m s ks)))
   \<and> (codeIndex s = 0 \<longrightarrow> handleKeypress s CHR ''*'' ks = Returned s ks
       \<and> (currentState s = ALARM \<longrightarrow> alarmLoop True s (CHR ''*'' # ks) = alarmLoop True s ks))
   \<and> (codeIndex s = 4 \<and> isDigit key \<longrightarrow> handleKeypress s key ks = Returned s ks
       \<and> (currentState s = ALARM \<longrightarrow> alarmLoop True s (key # ks) = alarmLoop True s ks))"
proof -
  have star: "\<not> isDigit CHR ''*''" and nul: "CHR ''*'' \<noteq> NUL"
    by (simp_all add: isDigit_def NUL_def)
  have digit: "key \<noteq> CHR ''A'' \<and> key \<noteq> CHR ''B'' \<and> key \<noteq> CHR ''C'' \<and> key \<noteq> CHR ''D''
      \<and> key \<noteq> CHR ''*'' \<and> key \<noteq> CHR ''#''" if "isDigit key"
    using that by (auto simp: isDigit_def)
  have c1: "bufOk s \<longrightarrow> bufOk (state_of (run s ks sns))
      \<and> bufOk (state_of (handleKeypress s key ks)) \<and> bufOk (state_of (alarmLoop m s ks))"
    by (simp add: bufOk_run bufOk_handleKeypress bufOk_alarmLoop)
  have c2: "codeIndex s = 0 \<longrightarrow> handleKeypress s CHR ''*'' ks = Returned s ks
       \<and> (currentState s = ALARM \<longrightarrow> alarmLoop True s (CHR ''*'' # ks) = alarmLoop True s ks)"
    using star nul by (simp add: handleKeypress_def)
  have c3: "codeIndex s = 4 \<and> isDigit key \<longrightarrow> handleKeypress s key ks = Returned s ks
       \<and> (currentState s = ALARM \<longrightarrow> alarmLoop True s (key # ks) = alarmLoop True s ks)"
    using digit by (simp add: handleKeypress_def)
  have c0: "bufOk initial"
    by (simp add: bufOk_def initial_def)
  from c0 c1 c2 c3 show ?thesis by blast
qed

theorem C9_witness:
  "bufOk initial
   \<and> bufOk (state_of (run initial ''A12345*'' [quiet, quiet, quiet, quiet, quiet, quiet, quiet]))
   \<and> codeIndex (state_of (run initial ''A12345*''
        [quiet, quiet, quiet, quiet, quiet, quiet, quiet])) = 3
   \<and> bufOk (state_of (handleKeypress initial CHR ''D'' ''C12345*''))
   \<and> handleKeypress initial CHR ''*'' [] = Returned initial []
   \<and> handleKeypress (initial\<lparr>codeIndex := 4, inputCode := ''1234'' @ [NUL]\<rparr>) CHR ''5'' []
       = Returned (initial\<lparr>codeIndex := 4, inputCode := ''1234'' @ [NUL]\<rparr>) []
   \<and> alarmLoop True (initial\<lparr>currentState := ALARM\<rparr>) ''*''
       = Alarming (initial\<lparr>currentState := ALARM\<rparr>)
   \<and> alarmLoop True
        (initial\<lparr>currentState := ALARM, codeIndex := 4, inputCode := ''1234'' @ [NUL]\<rparr>) ''5''
       = Alarming (initial\<lparr>currentState := ALARM, codeIndex := 4,
           inputCode := ''1234'' @ [NUL]\<rparr>)"
proof -
  have i: "bufOk initial" by (simp add: bufOk_def initial_def)
  have r: "codeIndex (state_of (run initial ''A12345*''
        [quiet, quiet, quiet, quiet, quiet, quiet, quiet])) = 3"
    by (simp add: initial_def quiet_def runTick_def handleKeypress_def member_defs Let_def)
  show ?thesis
    using i r
      C9_buffer_bounds [of initial "''A12345*''"
        "[quiet, quiet, quiet, quiet, quiet, quiet, quiet]" "CHR ''D''" False]
      C9_buffer_bounds [of initial "''C12345*''" "[]" "CHR ''D''" False]
      C9_buffer_bounds [of initial "[]" "[]" "CHR ''5''" False]
      C9_buffer_bounds [of "initial\<lparr>codeIndex := 4, inputCode := ''1234'' @ [NUL]\<rparr>" "[]" "[]"
        "CHR ''5''" False]
      C9_buffer_bounds [of "initial\<lparr>currentState := ALARM\<rparr>" "[]" "[]" "CHR ''5''" False]
      C9_buffer_bounds [of "initial\<lparr>currentState := ALARM, codeIndex := 4,
        inputCode := ''1234'' @ [NUL]\<rparr>" "[]" "[]" "CHR ''5''" False]
    by (simp add: initial_def isDigit_def NUL_def zeroCode_def)
qed

subsection \<open>Proximity alerts\<close>

lemma checkProximity_home_reading:
  assumes "currentState s = ARMED_HOME" and "\<not> entryDelayActive s"
    and "echo_cm sn = Some d" and "2 \<le> d" and "d \<le> 400"
    and "60 \<le> t_measure sn - lastMeasureTime s"
  shows "checkProximity s sn ks =
     Returned
       (if d < 10 \<and> \<not> inAlertZone s then
          (if t_alert sn - lastUltrasonicAlert s < 1000
           then s\<lparr>lastMeasureTime := t_measure sn, inAlertZone := True\<rparr>
           else s\<lparr>lastMeasureTime := t_measure sn, inAlertZone := True,
                  lastUltrasonicAlert := t_alert sn,
                  events := events s @ [''Proximity Alert'']\<rparr>)
        else if d > 12 then s\<lparr>lastMeasureTime := t_measure sn, inAlertZone := False\<rparr>
        else s\<lparr>lastMeasureTime := t_measure sn\<rparr>) ks"
  using assms
  by (simp add: checkProximity_def measureDistance_def handleUltrasonicAlert_def logEvent_def
      Let_def not_less [symmetric])

lemma proximityAlerts_simps:
  "proximityAlerts (s\<lparr>lastDoorState := b\<rparr>) = proximityAlerts s"
  "proximityAlerts (s\<lparr>lastMeasureTime := t\<rparr>) = proximityAlerts s"
  "proximityAlerts (s\<lparr>inAlertZone := b\<rparr>) = proximityAlerts s"
  "proximityAlerts (s\<lparr>lastUltrasonicAlert := t\<rparr>) = proximityAlerts s"
  "proximityAlerts (logEvent s ''Door Opened'') = proximityAlerts s"
  "proximityAlerts (s\<lparr>events := events s @ [''Proximity Alert'']\<rparr>) = proximityAlerts s + 1"
  by (simp_all add: proximityAlerts_def logEvent_def)

text \<open>
  One pass of the main loop in \<open>ARMED_HOME\<close> with an idle keypad, no exterior motion, no
  entry delay and a distance measurement that is not rate-limited: what it does to the
  latch, to the alert rate limiter and to the number of warnings.
\<close>

lemma home_tick:
  assumes "currentState s = ARMED_HOME" and "\<not> entryDelayActive s"
    and "\<not> pir1 sn" and "\<not> pir1_again sn"
    and "echo_cm sn = Some d" and "2 \<le> d" and "d \<le> 400"
    and "60 \<le> t_measure sn - lastMeasureTime s"
  shows "\<exists>s'. run s [] [sn] = Returned s' []
     \<and> currentState s' = ARMED_HOME \<and> \<not> entryDelayActive s'
     \<and> lastMeasureTime s' = t_measure sn
     \<and> inAlertZone s' = (d < 10 \<or> (\<not> d > 12 \<and> inAlertZone s))
     \<and> lastUltrasonicAlert s' =
         (if d < 10 \<and> \<not> inAlertZone s \<and> \<not> t_alert sn - lastUltrasonicAlert s < 1000
          then t_alert sn else lastUltrasonicAlert s)
     \<and> proximityAlerts s' = proximityAlerts s +
         (if d < 10 \<and> \<not> inAlertZone s \<and> \<not> t_alert sn - lastUltrasonicAlert s < 1000
          then 1 else 0)"
proof -
  let ?s1 = "checkDoor s sn"
  have door: "currentState ?s1 = ARMED_HOME" "\<not> entryDelayActive ?s1"
    "lastMeasureTime ?s1 = lastMeasureTime s" "inAlertZone ?s1 = inAlertZone s"
    "lastUltrasonicAlert ?s1 = lastUltrasonicAlert s" "proximityAlerts ?s1 = proximityAlerts s"
    using assms(1,2) by (simp_all add: checkDoor_home proximityAlerts_simps, simp_all add: logEvent_def)
  have prox: "checkProximity ?s1 sn [] = Returned
       (if d < 10 \<and> \<not> inAlertZone ?s1 then
          (if t_alert sn - lastUltrasonicAlert ?s1 < 1000
           then ?s1\<lparr>lastMeasureTime := t_measure sn, inAlertZone := True\<rparr>
           else ?s1\<lparr>lastMeasureTime := t_measure sn, inAlertZone := True,
                  lastUltrasonicAlert := t_alert sn,
                  events := events ?s1 @ [''Proximity Alert'']\<rparr>)
        else if d > 12 then ?s1\<lparr>lastMeasureTime := t_measure sn, inAlertZone := False\<rparr>
        else ?s1\<lparr>lastMeasureTime := t_measure sn\<rparr>) []"
    using assms(5-8) door by (intro checkProximity_home_reading) simp_all
  have run: "run s [] [sn] = checkProximity ?s1 sn []"
    using assms(1,3,4) checkProximity_home [OF door(1), of sn "[]"]
    by (auto simp: runTick_def checkSensors_def checkMotion_home_quiet NUL_def)
  show ?thesis
    unfolding run prox using door
    by (auto simp: proximityAlerts_def)
qed

text \<open>
  C8. The claim: the readings 15, 9, 11, 13, 8 cm on successive passes in \<open>ARMED_HOME\<close>
  produce exactly two alerts. The latch is entered twice, but \<^verbatim>\<open>handleUltrasonicAlert\<close>
  returns at once when the last alert is less than 1000 ms old. With the five passes
  100 ms apart (at 5000, 5100, ..., 5400 ms) the second entry is suppressed and one
  "Proximity Alert" is produced.
\<close>

theorem C8_counterexample:
  "\<exists>s'. run (initial\<lparr>currentState := ARMED_HOME\<rparr>) []
        [quiet\<lparr>echo_cm := Some 15, t_measure := 5000, t_alert := 5000\<rparr>,
         quiet\<lparr>echo_cm := Some 9, t_measure := 5100, t_alert := 5100\<rparr>,
         quiet\<lparr>echo_cm := Some 11, t_measure := 5200, t_alert := 5200\<rparr>,
         quiet\<lparr>echo_cm := Some 13, t_measure := 5300, t_alert := 5300\<rparr>,
         quiet\<lparr>echo_cm := Some 8, t_measure := 5400, t_alert := 5400\<rparr>] = Returned s' []
     \<and> currentState s' = ARMED_HOME \<and> inAlertZone s'
     \<and> events s' = [''Proximity Alert''] \<and> proximityAlerts s' = 1"
  by (simp add: initial_def quiet_def runTick_def sensor_defs member_defs Let_def
      proximityAlerts_def)

text \<open>
  C8, as the code has it. In \<open>ARMED_HOME\<close> with no entry delay and no exterior motion, let
  five successive passes measure 15, 9, 11, 13 and 8 cm, each measurement at least 60 ms
  after the one before (so that \<^verbatim>\<open>measureDistance\<close> returns the reading). Then the latch is
  off after the first pass, on after the second and third, off after the fourth and on
  after the fifth: the alert zone is entered exactly twice, at the 9 and at the 8. Each
  entry produces a "Proximity Alert" unless the last alert is less than 1000 ms old: at
  most two are produced, exactly two when the first entry is at least 1000 ms after the
  last alert and the second at least 1000 ms after the first, and at most one when the two
  entries are less than 1000 ms apart.
\<close>

theorem C8_proximity_hysteresis:
  assumes "currentState s = ARMED_HOME" and "\<not> entryDelayActive s"
    and "\<forall>sn \<in> set [sn1, sn2, sn3, sn4, sn5]. \<not> pir1 sn \<and> \<not> pir1_again sn"
    and "map echo_cm [sn1, sn2, sn3, sn4, sn5] = [Some 15, Some 9, Some 11, Some 13, Some 8]"
    and "60 \<le> t_measure sn1 - lastMeasureTime s" and "60 \<le> t_measure sn2 - t_measure sn1"
    and "60 \<le> t_measure sn3 - t_measure sn2" and "60 \<le> t_measure sn4 - t_measure sn3"
    and "60 \<le> t_measure sn5 - t_measure sn4"
  shows "\<exists>s1 s2 s3 s4 s5.
       run s [] [sn1] = Returned s1 [] \<and> run s1 [] [sn2] = Returned s2 []
     \<and> run s2 [] [sn3] = Returned s3 [] \<and> run s3 [] [sn4] = Returned s4 []
     \<and> run s4 [] [sn5] = Returned s5 []
     \<and> run s [] [sn1, sn2, sn3, sn4, sn5] = Returned s5 []
     \<and> currentState s5 = ARMED_HOME
     \<and> \<not> inAlertZone s1 \<and> inAlertZone s2 \<and> inAlertZone s3 \<and> \<not> inAlertZone s4
     \<and> inAlertZone s5
     \<and> proximityAlerts s5 \<le> proximityAlerts s + 2
     \<and> (1000 \<le> t_alert sn2 - lastUltrasonicAlert s \<and> 1000 \<le> t_alert sn5 - t_alert sn2
          \<longrightarrow> proximityAlerts s5 = proximityAlerts s + 2)
     \<and> (t_alert sn5 - t_alert sn2 < 1000 \<longrightarrow> proximityAlerts s5 \<le> proximityAlerts s + 1)"
proof -
  from assms(3) have q: "\<not> pir1 sn1" "\<not> pir1_again sn1" "\<not> pir1 sn2" "\<not> pir1_again sn2"
    "\<not> pir1 sn3" "\<not> pir1_again sn3" "\<not> pir1 sn4" "\<not> pir1_again sn4"
    "\<not> pir1 sn5" "\<not> pir1_again sn5"
    by simp_all
  from assms(4) have e: "echo_cm sn1 = Some 15" "echo_cm sn2 = Some 9" "echo_cm sn3 = Some 11"
    "echo_cm sn4 = Some 13" "echo_cm sn5 = Some 8"
    by simp_all
  from home_tick [OF assms(1,2) q(1,2) e(1) _ _ assms(5)] obtain s1 where
    s1: "run s [] [sn1] = Returned s1 []" "currentState s1 = ARMED_HOME"
      "\<not> entryDelayActive s1" "lastMeasureTime s1 = t_measure sn1" "\<not> inAlertZone s1"
      "lastUltrasonicAlert s1 = lastUltrasonicAlert s" "proximityAlerts s1 = proximityAlerts s"
    by auto
  from home_tick [OF s1(2,3) q(3,4) e(2), of ] assms(6) s1(4) obtain s2 where
    s2: "run s1 [] [sn2] = Returned s2 []" "currentState s2 = ARMED_HOME"
      "\<not> entryDelayActive s2" "lastMeasureTime s2 = t_measure sn2" "inAlertZone s2"
      "lastUltrasonicAlert s2 =
         (if t_alert sn2 - lastUltrasonicAlert s < 1000 then lastUltrasonicAlert s
          else t_alert sn2)"
      "proximityAlerts s2 = proximityAlerts s +
         (if t_alert sn2 - lastUltrasonicAlert s < 1000 then 0 else 1)"
    using s1(5,6,7) by auto
  from home_tick [OF s2(2,3) q(5,6) e(3)] assms(7) s2(4) obtain s3 where
    s3: "run s2 [] [sn3] = Returned s3 []" "currentState s3 = ARMED_HOME"
      "\<not> entryDelayActive s3" "lastMeasureTime s3 = t_measure sn3" "inAlertZone s3"
      "lastUltrasonicAlert s3 = lastUltrasonicAlert s2" "proximityAlerts s3 = proximityAlerts s2"
    using s2(5) by auto
  from home_tick [OF s3(2,3) q(7,8) e(4)] assms(8) s3(4) obtain s4 where
    s4: "run s3 [] [sn4] = Returned s4 []" "currentState s4 = ARMED_HOME"
      "\<not> entryDelayActive s4" "lastMeasureTime s4 = t_measure sn4" "\<not> inAlertZone s4"
      "lastUltrasonicAlert s4 = lastUltrasonicAlert s2" "proximityAlerts s4 = proximityAlerts s2"
    using s3(6,7) by auto
  from home_tick [OF s4(2,3) q(9,10) e(5)] assms(9) s4(4) obtain s5 where
    s5: "run s4 [] [sn5] = Returned s5 []" "currentState s5 = ARMED_HOME" "inAlertZone s5"
      "proximityAlerts s5 = proximityAlerts s2 +
         (if t_alert sn5 - lastUltrasonicAlert s2 < 1000 then 0 else 1)"
    using s4(5,6,7) by auto
  have tick: "run a [] (sn # sns) = run b [] sns" if "run a [] [sn] = Returned b []"
    for a b sn sns
    using that by (simp split: outcome.splits)
  have all: "run s [] [sn1, sn2, sn3, sn4, sn5] = Returned s5 []"
    by (simp only: tick [OF s1(1)] tick [OF s2(1)] tick [OF s3(1)] tick [OF s4(1)] s5(1))
  have count: "proximityAlerts s5 \<le> proximityAlerts s + 2
     \<and> (1000 \<le> t_alert sn2 - lastUltrasonicAlert s \<and> 1000 \<le> t_alert sn5 - t_alert sn2
          \<longrightarrow> proximityAlerts s5 = proximityAlerts s + 2)
     \<and> (t_alert sn5 - t_alert sn2 < 1000 \<longrightarrow> proximityAlerts s5 \<le> proximityAlerts s + 1)"
    using s5(4) s2(6,7) by (auto simp: not_less [symmetric])
  show ?thesis
    using s1(1,5) s2(1,5) s3(1,5) s4(1,5) s5(1,2,3) all count by blast
qed

theorem C8_witness:
  "\<exists>s'. run (initial\<lparr>currentState := ARMED_HOME\<rparr>) []
        [quiet\<lparr>echo_cm := Some 15, t_measure := 5000, t_alert := 5000\<rparr>,
         quiet\<lparr>echo_cm := Some 9, t_measure := 6000, t_alert := 6000\<rparr>,
         quiet\<lparr>echo_cm := Some 11, t_measure := 6100, t_alert := 6100\<rparr>,
         quiet\<lparr>echo_cm := Some 13, t_measure := 6200, t_alert := 6200\<rparr>,
         quiet\<lparr>echo_cm := Some 8, t_measure := 7100, t_alert := 7100\<rparr>] = Returned s' []
     \<and> currentState s' = ARMED_HOME \<and> inAlertZone s' \<and> proximityAlerts s' = 2"
proof -
  let ?s = "initial\<lparr>currentState := ARMED_HOME\<rparr>"
  let ?sn1 = "quiet\<lparr>echo_cm := Some 15, t_measure := 5000, t_alert := 5000\<rparr>"
  let ?sn2 = "quiet\<lparr>echo_cm := Some 9, t_measure := 6000, t_alert := 6000\<rparr>"
  let ?sn3 = "quiet\<lparr>echo_cm := Some 11, t_measure := 6100, t_alert := 6100\<rparr>"
  let ?sn4 = "quiet\<lparr>echo_cm := Some 13, t_measure := 6200, t_alert := 6200\<rparr>"
  let ?sn5 = "quiet\<lparr>echo_cm := Some 8, t_measure := 7100, t_alert := 7100\<rparr>"
  have h: "currentState ?s = ARMED_HOME" "\<not> entryDelayActive ?s"
    "\<forall>sn \<in> set [?sn1, ?sn2, ?sn3, ?sn4, ?sn5]. \<not> pir1 sn \<and> \<not> pir1_again sn"
    "map echo_cm [?sn1, ?sn2, ?sn3, ?sn4, ?sn5] = [Some 15, Some 9, Some 11, Some 13, Some 8]"
    "60 \<le> t_measure ?sn1 - lastMeasureTime ?s" "60 \<le> t_measure ?sn2 - t_measure ?sn1"
    "60 \<le> t_measure ?sn3 - t_measure ?sn2" "60 \<le> t_measure ?sn4 - t_measure ?sn3"
    "60 \<le> t_measure ?sn5 - t_measure ?sn4"
    by (simp_all add: initial_def quiet_def)
  have far: "1000 \<le> t_alert ?sn2 - lastUltrasonicAlert ?s \<and> 1000 \<le> t_alert ?sn5 - t_alert ?sn2"
    by (simp add: initial_def)
  have none: "proximityAlerts ?s = 0"
    by (simp add: initial_def proximityAlerts_def)
  from C8_proximity_hysteresis [OF h] far obtain s5 where
    "run ?s [] [?sn1, ?sn2, ?sn3, ?sn4, ?sn5] = Returned s5 []" "currentState s5 = ARMED_HOME"
    "inAlertZone s5" "proximityAlerts s5 = proximityAlerts ?s + 2"
    by blast
  with none show ?thesis by simp
qed

end
